theory Spec2Isabelle
  imports Complex_Main
begin

section \<open>Configuration: joint\_simple\_mlp\_tgtcls\_111\_cswdtx\_bigger\<close>

text \<open>
  The configuration module is a sequence of top-level assignments. Python integers are
  unbounded, so the target classes are \<open>int\<close>; sizes and dimensions are \<open>nat\<close>.
  The constants \<open>data.origin_call_size\<close> and \<open>data.stands_size\<close> come from the
  \<open>data\<close> package and are parameters of the embedding.
\<close>

definition n_begin_end_pts :: nat where
  "n_begin_end_pts = 10"

definition n_end_pts :: nat where
  "n_end_pts = 10"

definition n_valid :: nat where
  "n_valid = 1000"

text \<open>
  \<^verbatim>\<open>
  time_tgtcls = [1, 2]
  for i in range(21):
      time_tgtcls.append(time_tgtcls[-1] + time_tgtcls[-2])
  \<close>
  The loop body reads the last two elements of the list. Python raises IndexError when
  the list has fewer than two elements; the body is a value of \<open>option\<close> so that this
  case is a branch of the model.
\<close>

fun append_next :: "int list \<Rightarrow> int list option" where
  "append_next xs =
     (if length xs < 2 then None
      else Some (xs @ [xs ! (length xs - 1) + xs ! (length xs - 2)]))"

fun time_tgtcls_loop :: "nat \<Rightarrow> int list \<Rightarrow> int list option" where
  "time_tgtcls_loop 0 xs = Some xs"
| "time_tgtcls_loop (Suc n) xs =
     (case append_next xs of None \<Rightarrow> None | Some ys \<Rightarrow> time_tgtcls_loop n ys)"

definition time_tgtcls :: "int list option" where
  "time_tgtcls = time_tgtcls_loop 21 [1, 2]"

text \<open>
  An embedding table is a triple (input name, number of rows, output dimension).
\<close>

type_synonym embedding = "string \<times> nat \<times> nat"

definition dim_embeddings :: "nat \<Rightarrow> nat \<Rightarrow> embedding list" where
  "dim_embeddings origin_call_size stands_size =
     [(''origin_call'', origin_call_size + 1, 15),
      (''origin_stand'', stands_size + 1, 10),
      (''week_of_year'', 52, 10),
      (''day_of_week'', 7, 10),
      (''qhour_of_day'', 24 * 4, 10),
      (''day_type'', 3, 10),
      (''taxi_id'', 448, 10)]"

definition dim_input :: "nat \<Rightarrow> nat \<Rightarrow> nat" where
  "dim_input origin_call_size stands_size =
     n_begin_end_pts * 2 * 2
       + sum_list (map (\<lambda>(_, _, x). x) (dim_embeddings origin_call_size stands_size))"

definition dim_hidden :: "nat list" where
  "dim_hidden = [1000]"

definition dim_hidden_dest :: "nat list" where
  "dim_hidden_dest = [400]"

definition dim_hidden_time :: "nat list" where
  "dim_hidden_time = [400]"

definition dim_output_time :: "nat option" where
  "dim_output_time = map_option length time_tgtcls"

definition time_cost_factor :: nat where
  "time_cost_factor = 4"

definition batch_size_cfg :: nat where
  "batch_size_cfg = 200"

definition valid_set_cfg :: string where
  "valid_set_cfg = ''cuts/test_times_0''"


section \<open>Data streams of the recurrent model (class Stream)\<close>

text \<open>
  A stream object is either a stream over a dataset or a transformer wrapping a child
  stream. The constructors keep the arguments the code passes. The classes themselves
  (\<open>TaxiDataset\<close>, \<open>TaxiStream\<close>, \<open>data.transformers\<close>, and \<open>Batch\<close>,
  \<open>Padding\<close>, \<open>DataStream\<close> of the stream library) are not among the source files.
\<close>

record dataset =
  which_set :: string
  filename :: "string option"
  only_sources :: "string list option"

definition TaxiDataset :: "string \<Rightarrow> dataset" where
  "TaxiDataset w = \<lparr>which_set = w, filename = None, only_sources = None\<rparr>"

definition TaxiDataset_file :: "string \<Rightarrow> string \<Rightarrow> string list \<Rightarrow> dataset" where
  "TaxiDataset_file w f srcs = \<lparr>which_set = w, filename = Some f, only_sources = Some srcs\<rparr>"

datatype scheme = ShuffledExampleScheme nat | ConstantScheme nat

datatype transformer =
    TaxiExcludeTrips "string list"
  | TaxiExcludeEmptyTrips
  | taxi_add_datetime
  | add_destination
  | taxi_remove_test_only_clients
  | Select "string list"
  | balanced_batch string nat nat
  | Batch scheme
  | Padding "string list"

datatype stream =
    DataStream dataset scheme
  | TaxiStream string "string option"
  | Transformer stream transformer

text \<open>The part of the run configuration that class Stream reads.\<close>

record stream_config =
  valid_set :: string
  batch_size :: nat
  batch_sort_size :: nat

text \<open>
  What the HDF5 files hold, as far as \<open>Stream.train\<close> reads it: the \<open>trip_id\<close>
  column of every dataset. \<open>num_examples\<close> is the number of rows, and
  \<open>get_data(None, slice(a, b))\<close> returns the rows from \<open>a\<close> up to \<open>b\<close>.
\<close>

type_synonym store = "dataset \<Rightarrow> string list"

definition num_examples :: "store \<Rightarrow> dataset \<Rightarrow> nat" where
  "num_examples st d = length (st d)"

definition get_data_slice :: "store \<Rightarrow> dataset \<Rightarrow> nat \<Rightarrow> nat \<Rightarrow> string list" where
  "get_data_slice st d a b = drop a (take b (st d))"

text \<open>\<open>v.endswith(suffix)\<close> on Python strings.\<close>

definition endswith :: "string \<Rightarrow> string \<Rightarrow> bool" where
  "endswith v suf \<longleftrightarrow> length suf \<le> length v \<and> drop (length v - length suf) v = suf"

definition non_mask :: "string list \<Rightarrow> string list" where
  "non_mask req_vars = filter (\<lambda>v. \<not> endswith v ''_mask'') req_vars"

definition train :: "stream_config \<Rightarrow> store \<Rightarrow> string list \<Rightarrow> stream" where
  "train config st req_vars =
     (let valid = TaxiDataset_file (valid_set config) ''valid.hdf5'' [''trip_id''];
          valid_trips_ids = get_data_slice st valid 0 (num_examples st valid);
          stream = TaxiDataset ''train'';
          stream = DataStream stream (ShuffledExampleScheme (num_examples st stream));
          stream = Transformer stream (TaxiExcludeTrips valid_trips_ids);
          stream = Transformer stream TaxiExcludeEmptyTrips;
          stream = Transformer stream taxi_add_datetime;
          stream = Transformer stream add_destination;
          stream = Transformer stream (Select (non_mask req_vars));
          stream = Transformer stream
                     (balanced_batch ''latitude'' (batch_size config) (batch_sort_size config));
          stream = Transformer stream (Padding [''latitude'', ''longitude''])
      in Transformer stream (Select req_vars))"

definition valid :: "stream_config \<Rightarrow> string list \<Rightarrow> stream" where
  "valid config req_vars =
     (let stream = TaxiStream (valid_set config) (Some ''valid.hdf5'');
          stream = Transformer stream taxi_add_datetime;
          stream = Transformer stream add_destination;
          stream = Transformer stream (Select (non_mask req_vars));
          stream = Transformer stream (Batch (ConstantScheme 1000));
          stream = Transformer stream (Padding [''latitude'', ''longitude''])
      in Transformer stream (Select req_vars))"

definition test :: "stream_config \<Rightarrow> string list \<Rightarrow> stream" where
  "test config req_vars =
     (let stream = TaxiStream ''test'' None;
          stream = Transformer stream taxi_add_datetime;
          stream = Transformer stream taxi_remove_test_only_clients;
          stream = Transformer stream (Select (non_mask req_vars));
          stream = Transformer stream (Batch (ConstantScheme 1));
          stream = Transformer stream (Padding [''latitude'', ''longitude''])
      in Transformer stream (Select req_vars))"

text \<open>
  Reading a pipeline back: the stream it starts from, and the transformers in the order
  in which they were applied (the innermost first).
\<close>

fun origin :: "stream \<Rightarrow> stream" where
  "origin (Transformer s t) = origin s"
| "origin s = s"

fun stages :: "stream \<Rightarrow> transformer list" where
  "stages (Transformer s t) = stages s @ [t]"
| "stages s = []"

text \<open>
  \<open>data_stream\<close> is the child a transformer wraps. All three pipelines end in a selection,
  a batching transformer, the padding and a second selection; \<open>before_select\<close> is the
  stream the first of these four wraps.
\<close>

fun data_stream :: "stream \<Rightarrow> stream" where
  "data_stream (Transformer s t) = s"
| "data_stream s = s"

definition before_select :: "stream \<Rightarrow> stream" where
  "before_select s = data_stream (data_stream (data_stream (data_stream s)))"

definition is_batching :: "transformer \<Rightarrow> bool" where
  "is_batching t \<longleftrightarrow> (case t of Batch _ \<Rightarrow> True | balanced_batch _ _ _ \<Rightarrow> True | _ \<Rightarrow> False)"


text \<open>
  Modelled from the spec: the transformer classes are not among the source files, so the
  names of the sources a stream carries follow the words of the specification: the
  datetime transformer and the destination transformer add fields, the filters and the
  batching transformers keep the sources of their child, padding adds the source
  \<open>name_mask\<close> after every source \<open>name\<close> listed in \<open>mask_sources\<close>, and a
  selection yields exactly the requested names, each of which has to be a source of
  its child (the result is \<open>None\<close> when one is not: no stream is built).
  The sources of a dataset stream are a parameter \<open>D\<close>.
\<close>

definition datetime_fields :: "string list" where
  "datetime_fields = [''week_of_year'', ''day_of_week'', ''qhour_of_day'']"

definition destination_fields :: "string list" where
  "destination_fields = [''destination_latitude'', ''destination_longitude'']"

definition padding_sources :: "string list \<Rightarrow> string list \<Rightarrow> string list" where
  "padding_sources mask_sources ss =
     concat (map (\<lambda>v. if v \<in> set mask_sources then [v, v @ ''_mask''] else [v]) ss)"

fun transformer_sources :: "transformer \<Rightarrow> string list \<Rightarrow> string list option" where
  "transformer_sources (TaxiExcludeTrips ids) ss = Some ss"
| "transformer_sources TaxiExcludeEmptyTrips ss = Some ss"
| "transformer_sources taxi_add_datetime ss = Some (ss @ datetime_fields)"
| "transformer_sources add_destination ss = Some (ss @ destination_fields)"
| "transformer_sources taxi_remove_test_only_clients ss = Some ss"
| "transformer_sources (Select vs) ss = (if set vs \<subseteq> set ss then Some vs else None)"
| "transformer_sources (balanced_batch k n m) ss = Some ss"
| "transformer_sources (Batch sch) ss = Some ss"
| "transformer_sources (Padding ms) ss = Some (padding_sources ms ss)"

fun sources :: "(stream \<Rightarrow> string list) \<Rightarrow> stream \<Rightarrow> string list option" where
  "sources D (Transformer s t) =
     (case sources D s of None \<Rightarrow> None | Some ss \<Rightarrow> transformer_sources t ss)"
| "sources D s = Some (D s)"


section \<open>The recurrent model (class Model)\<close>

subsection \<open>Construction\<close>

text \<open>
  The bricks that \<open>Model.__init__\<close> creates, with the arguments it gives them. The
  context embedders are built from \<open>config.pre_embedder\<close> and \<open>config.post_embedder\<close>,
  of which the constructor reads \<open>dim_embeddings\<close>.
\<close>

datatype activation = Tanh

record MLP =
  activations :: "activation list"
  dims :: "nat list"

record LSTM =
  dim :: nat

record embedder_config =
  embedder_dim_embeddings :: "embedding list"

record model_config =
  pre_embedder :: embedder_config
  post_embedder :: embedder_config
  hidden_state_dim :: nat

record model =
  input_to_rec :: MLP
  rec :: LSTM
  rec_to_output :: MLP
  sequences :: "string list"

definition Model_init :: "model_config \<Rightarrow> model" where
  "Model_init config =
     (let in1 = 2 + sum_list (map (\<lambda>x. snd (snd x))
                               (embedder_dim_embeddings (pre_embedder config)));
          input_to_rec = \<lparr>activations = [Tanh], dims = [in1, hidden_state_dim config]\<rparr>;
          rec = \<lparr>dim = hidden_state_dim config\<rparr>;
          in2 = hidden_state_dim config
                  + sum_list (map (\<lambda>x. snd (snd x))
                               (embedder_dim_embeddings (post_embedder config)));
          rec_to_output = \<lparr>activations = [Tanh], dims = [in2, 2]\<rparr>
      in \<lparr>input_to_rec = input_to_rec, rec = rec, rec_to_output = rec_to_output,
          sequences = [''latitude'', ''latitude_mask'', ''longitude'']\<rparr>)"

text \<open>The output dimensions \<open>x[2]\<close> of the embedding tables of an embedder.\<close>

definition embedding_dims :: "embedder_config \<Rightarrow> nat list" where
  "embedding_dims e = map (\<lambda>x. snd (snd x)) (embedder_dim_embeddings e)"

subsection \<open>Tensors\<close>

text \<open>
  Tensor entries are modelled as real numbers: the theory speaks about which entries are
  combined and how, not about rounding. A vector is a list, a matrix a list of rows.
  The output of \<open>rec_to_output\<close> has two columns (its \<open>dims\<close> end in 2), so a row of it
  is a pair (latitude, longitude), and so is a row of any tensor reshaped to \<open>(-1, 2)\<close>.
\<close>

type_synonym vector = "real list"
type_synonym matrix = "real list list"
type_synonym point = "real \<times> real"

definition shape_padright :: "vector \<Rightarrow> matrix" where
  "shape_padright v = map (\<lambda>x. [x]) v"

fun concatenate_axis1 :: "matrix list \<Rightarrow> matrix" where
  "concatenate_axis1 [] = []"
| "concatenate_axis1 [m] = m"
| "concatenate_axis1 (m # ms) = map2 (@) m (concatenate_axis1 ms)"

definition repeat_axis1 :: "nat \<Rightarrow> matrix \<Rightarrow> matrix" where
  "repeat_axis1 n m = map (\<lambda>row. concat (map (replicate n) row)) m"

definition repeat_axis0 :: "nat \<Rightarrow> 'a list \<Rightarrow> 'a list" where
  "repeat_axis0 n xs = concat (map (replicate n) xs)"

text \<open>A matrix of \<open>n\<close> rows and \<open>d\<close> columns.\<close>

definition has_shape :: "nat \<Rightarrow> nat \<Rightarrow> 'a list list \<Rightarrow> bool" where
  "has_shape n d M \<longleftrightarrow> length M = n \<and> list_all (\<lambda>row. length row = d) M"

datatype error = IndexError

text \<open>Indexing along the first axis; a negative index counts from the end.\<close>

definition getitem :: "'a list \<Rightarrow> int \<Rightarrow> error + 'a" where
  "getitem xs i =
     (if 0 \<le> i \<and> i < int (length xs) then Inr (xs ! nat i)
      else if i < 0 \<and> - int (length xs) \<le> i then Inr (xs ! nat (int (length xs) + i))
      else Inl IndexError)"


subsection \<open>Application methods\<close>

text \<open>
  The constants \<open>data.train_gps_mean\<close> and \<open>data.train_gps_std\<close> (two entries each,
  read as \<open>[0]\<close> and \<open>[1]\<close>) come from the \<open>data\<close> package and are parameters.
\<close>

record gps =
  train_gps_mean :: point
  train_gps_std :: point

text \<open>
  What the child bricks compute is outside the source files (the embedders) or outside
  the repository (MLP, LSTM): their \<open>apply\<close> methods and the initial state of the
  LSTM are parameters. \<open>'k\<close> is the type of the keyword arguments holding the context
  variables.
\<close>

record 'k bricks =
  pre_context_embedder_apply :: "'k \<Rightarrow> matrix list"
  post_context_embedder_apply :: "'k \<Rightarrow> matrix list"
  input_to_rec_apply :: "matrix \<Rightarrow> matrix"
  rec_apply :: "matrix \<Rightarrow> matrix \<Rightarrow> matrix \<Rightarrow> vector \<Rightarrow> matrix \<times> matrix"
  rec_initial_state :: "string \<Rightarrow> nat \<Rightarrow> matrix"
  rec_to_output_apply :: "matrix \<Rightarrow> point list"

definition normalize_latitude :: "gps \<Rightarrow> real \<Rightarrow> real" where
  "normalize_latitude g x = (x - fst (train_gps_mean g)) / fst (train_gps_std g)"

definition normalize_longitude :: "gps \<Rightarrow> real \<Rightarrow> real" where
  "normalize_longitude g x = (x - snd (train_gps_mean g)) / snd (train_gps_std g)"

definition denormalize :: "gps \<Rightarrow> point \<Rightarrow> point" where
  "denormalize g y =
     (fst y * fst (train_gps_std g) + fst (train_gps_mean g),
      snd y * snd (train_gps_std g) + snd (train_gps_mean g))"

text \<open>
  The body of \<open>predict_all\<close>, one time step, in four parts: the input of the brick
  \<open>input_to_rec\<close>, its output \<open>itr\<close>, the input of the LSTM (\<open>itr\<close> after
  \<open>itr.repeat(4, axis=1)\<close>) and the input of the brick \<open>rec_to_output\<close>.
\<close>

definition input_to_rec_in :: "gps \<Rightarrow> 'k bricks \<Rightarrow> 'k \<Rightarrow> vector \<Rightarrow> vector \<Rightarrow> matrix" where
  "input_to_rec_in g m kwargs latitude longitude =
     (let latitude = map (normalize_latitude g) latitude;
          longitude = map (normalize_longitude g) longitude;
          pre_emb = pre_context_embedder_apply m kwargs;
          latitude = shape_padright latitude;
          longitude = shape_padright longitude
      in concatenate_axis1 (pre_emb @ [latitude, longitude]))"

definition input_to_rec_out :: "gps \<Rightarrow> 'k bricks \<Rightarrow> 'k \<Rightarrow> vector \<Rightarrow> vector \<Rightarrow> matrix" where
  "input_to_rec_out g m kwargs latitude longitude =
     input_to_rec_apply m (input_to_rec_in g m kwargs latitude longitude)"

definition rec_input :: "gps \<Rightarrow> 'k bricks \<Rightarrow> 'k \<Rightarrow> vector \<Rightarrow> vector \<Rightarrow> matrix" where
  "rec_input g m kwargs latitude longitude =
     repeat_axis1 4 (input_to_rec_out g m kwargs latitude longitude)"

definition rec_to_output_in :: "'k bricks \<Rightarrow> 'k \<Rightarrow> matrix \<Rightarrow> matrix" where
  "rec_to_output_in m kwargs next_states =
     (let post_emb = post_context_embedder_apply m kwargs
      in concatenate_axis1 (post_emb @ [next_states]))"

definition predict_all_step ::
  "gps \<Rightarrow> 'k bricks \<Rightarrow> 'k \<Rightarrow> vector \<Rightarrow> vector \<Rightarrow> vector \<Rightarrow> matrix \<Rightarrow> matrix
     \<Rightarrow> point list \<times> matrix \<times> matrix" where
  "predict_all_step g m kwargs latitude longitude latitude_mask states cells =
     (let itr = rec_input g m kwargs latitude longitude;
          (next_states, next_cells) = rec_apply m itr states cells latitude_mask;
          rto = rec_to_output_apply m (rec_to_output_in m kwargs next_states);
          rto = map (denormalize g) rto
      in (rto, next_states, next_cells))"

text \<open>
  The \<open>recurrent\<close> decorator iterates the body over the first axis of the sequences
  \<open>latitude\<close>, \<open>longitude\<close>, \<open>latitude_mask\<close>, threads the states \<open>states\<close> and
  \<open>cells\<close> through the steps, and stacks the outputs of every step.
\<close>

fun recurrent_loop ::
  "(vector \<Rightarrow> vector \<Rightarrow> vector \<Rightarrow> matrix \<Rightarrow> matrix \<Rightarrow> point list \<times> matrix \<times> matrix)
     \<Rightarrow> (vector \<times> vector \<times> vector) list \<Rightarrow> matrix \<Rightarrow> matrix
     \<Rightarrow> (point list \<times> matrix \<times> matrix) list" where
  "recurrent_loop f [] states cells = []"
| "recurrent_loop f ((la, lo, ma) # xs) states cells =
     (let out = f la lo ma states cells
      in out # recurrent_loop f xs (fst (snd out)) (snd (snd out)))"

definition predict_all ::
  "gps \<Rightarrow> 'k bricks \<Rightarrow> 'k \<Rightarrow> matrix \<Rightarrow> matrix \<Rightarrow> matrix
     \<Rightarrow> point list list \<times> matrix list \<times> matrix list" where
  "predict_all g m kwargs latitude longitude latitude_mask =
     (let batch_size = (case latitude of [] \<Rightarrow> 0 | row # _ \<Rightarrow> length row);
          outs = recurrent_loop (predict_all_step g m kwargs)
                   (zip latitude (zip longitude latitude_mask))
                   (rec_initial_state m ''states'' batch_size)
                   (rec_initial_state m ''cells'' batch_size)
      in (map fst outs, map (\<lambda>out. fst (snd out)) outs, map (\<lambda>out. snd (snd out)) outs))"

definition predict ::
  "gps \<Rightarrow> 'k bricks \<Rightarrow> 'k \<Rightarrow> matrix \<Rightarrow> matrix \<Rightarrow> matrix \<Rightarrow> error + point list" where
  "predict g m kwargs latitude longitude latitude_mask =
     (let latitude = transpose latitude;
          longitude = transpose longitude;
          latitude_mask = transpose latitude_mask;
          res = fst (predict_all g m kwargs latitude longitude latitude_mask)
      in getitem res (- 1))"

text \<open>
  \<open>error.erdist\<close> is not among the source files; it maps two tensors of points, row by
  row, to the distance between the two points of a row. The distance of two points is a
  parameter \<open>pointwise\<close>.
\<close>

definition erdist :: "(point \<Rightarrow> point \<Rightarrow> real) \<Rightarrow> point list \<Rightarrow> point list \<Rightarrow> vector" where
  "erdist pointwise a b = map2 pointwise a b"

text \<open>
  The quotient of two tensor entries. The division of the tensor library does not raise
  on a zero divisor; the quotient is then not a number, which is the value \<open>None\<close>.
\<close>

definition true_div :: "real \<Rightarrow> real \<Rightarrow> real option" where
  "true_div a b = (if b = 0 then None else Some (a / b))"

definition cost ::
  "gps \<Rightarrow> 'k bricks \<Rightarrow> (point \<Rightarrow> point \<Rightarrow> real) \<Rightarrow> 'k \<Rightarrow> vector \<Rightarrow> vector
     \<Rightarrow> matrix \<Rightarrow> matrix \<Rightarrow> matrix \<Rightarrow> real option" where
  "cost g m pointwise kwargs destination_latitude destination_longitude
        latitude longitude latitude_mask =
     (let latitude = transpose latitude;
          longitude = transpose longitude;
          latitude_mask = transpose latitude_mask;
          res = fst (predict_all g m kwargs latitude longitude latitude_mask);
          target = [zip destination_latitude destination_longitude];
          target = repeat_axis0 (length latitude) target;
          ce = erdist pointwise (concat target) (concat res);
          ce = map2 (*) ce (concat latitude_mask)
      in true_div (sum_list ce) (sum_list (concat latitude_mask)))"



subsection \<open>A small instance\<close>

text \<open>
  Two trajectories of two points each, one embedding table before and one after the
  recurrent layer, a hidden state of dimension 3, and simple functions in place of the
  bricks; a stream configuration, an empty store and datasets that provide the trip id
  and the two coordinates. The instance is used to evaluate the methods on concrete
  values.
\<close>

definition ex_gps :: gps where
  "ex_gps = \<lparr>train_gps_mean = (41, - 8), train_gps_std = (1 / 2, 1 / 4)\<rparr>"

definition ex_bricks :: "unit bricks" where
  "ex_bricks =
     \<lparr>pre_context_embedder_apply = (\<lambda>_. [[[1, 2], [3, 4]]]),
      post_context_embedder_apply = (\<lambda>_. [[[5], [6]]]),
      input_to_rec_apply = map (\<lambda>row. [row ! 0 + row ! 1, row ! 2, row ! 3]),
      rec_apply = (\<lambda>itr states cells mask.
         (map2 (\<lambda>r s. [r ! 0 + s ! 0, r ! 4, r ! 8]) itr states, cells)),
      rec_initial_state = (\<lambda>_ n. replicate n [0, 0, 0]),
      rec_to_output_apply = map (\<lambda>row. (row ! 2, row ! 3))\<rparr>"




definition ex_config :: model_config where
  "ex_config =
     \<lparr>pre_embedder = \<lparr>embedder_dim_embeddings = [(''origin_call'', 3, 2)]\<rparr>,
      post_embedder = \<lparr>embedder_dim_embeddings = [(''week_of_year'', 52, 1)]\<rparr>,
      hidden_state_dim = 3\<rparr>"

definition ex_latitude :: matrix where "ex_latitude = [[42, 43], [41, 40]]"
definition ex_longitude :: matrix where "ex_longitude = [[- 8, - 7], [- 9, - 8]]"
definition ex_mask :: matrix where "ex_mask = [[1, 1], [1, 0]]"
definition ex_pointwise :: "point \<Rightarrow> point \<Rightarrow> real" where
  "ex_pointwise a b = \<bar>fst a - fst b\<bar> + \<bar>snd a - snd b\<bar>"


section \<open>Properties of the configuration\<close>

lemma append_next_length:
  "append_next xs = Some ys \<Longrightarrow> length ys = Suc (length xs)"
  by (auto split: if_splits)

text \<open>
  The loop invariant: the list grows by one element per round, keeps what it held, and
  every element it appends is the sum of the two before it.
\<close>

lemma time_tgtcls_loop_spec:
  "2 \<le> length xs \<Longrightarrow> time_tgtcls_loop n xs = Some ys \<Longrightarrow>
     length ys = length xs + n \<and> take (length xs) ys = xs \<and>
     (\<forall>i. length xs \<le> i \<and> i < length ys \<longrightarrow> ys ! i = ys ! (i - 1) + ys ! (i - 2))"
proof (induction n arbitrary: xs ys)
  case 0
  then show ?case by simp
next
  case (Suc n)
  let ?zs = "xs @ [xs ! (length xs - 1) + xs ! (length xs - 2)]"
  from Suc.prems have run: "time_tgtcls_loop n ?zs = Some ys" by simp
  have len: "2 \<le> length ?zs" using Suc.prems by simp
  from Suc.IH[OF len run] have
    L: "length ys = length ?zs + n" and
    T: "take (length ?zs) ys = ?zs" and
    R: "\<forall>i. length ?zs \<le> i \<and> i < length ys \<longrightarrow> ys ! i = ys ! (i - 1) + ys ! (i - 2)"
    by blast+
  have T': "take (length xs) ys = xs"
  proof -
    have "take (length xs) ys = take (length xs) (take (length ?zs) ys)"
      by (simp add: min_def)
    also have "\<dots> = xs" by (simp only: T) simp
    finally show ?thesis .
  qed
  have nth_pre: "\<And>j. j < length ?zs \<Longrightarrow> ys ! j = ?zs ! j"
    by (metis T nth_take)
  have at: "ys ! length xs = ys ! (length xs - 1) + ys ! (length xs - 2)"
  proof -
    have "ys ! length xs = ?zs ! length xs" by (rule nth_pre) simp
    moreover have "ys ! (length xs - 1) = ?zs ! (length xs - 1)"
      using Suc.prems(1) by (intro nth_pre) simp
    moreover have "ys ! (length xs - 2) = ?zs ! (length xs - 2)"
      using Suc.prems(1) by (intro nth_pre) simp
    ultimately show ?thesis using Suc.prems(1) by (auto simp add: nth_append)
  qed
  have "\<forall>i. length xs \<le> i \<and> i < length ys \<longrightarrow> ys ! i = ys ! (i - 1) + ys ! (i - 2)"
  proof (intro allI impI)
    fix i assume i: "length xs \<le> i \<and> i < length ys"
    show "ys ! i = ys ! (i - 1) + ys ! (i - 2)"
    proof (cases "i = length xs")
      case True
      then show ?thesis using at by simp
    next
      case False
      with i have "length ?zs \<le> i \<and> i < length ys" by simp
      with R show ?thesis by blast
    qed
  qed
  with L T' show ?case by simp
qed

lemma time_tgtcls_loop_defined:
  "2 \<le> length xs \<Longrightarrow> \<exists>ys. time_tgtcls_loop n xs = Some ys"
  by (induction n arbitrary: xs) auto

text \<open>
  C4. The configuration declares exactly seven embedding tables, their output dimensions
  sum to 75, and \<open>dim_input\<close> is \<open>n_begin_end_pts * 2 * 2\<close> plus that sum:
  40 + 75 = 115, whatever the sizes of the origin-call and stand tables are.
\<close>

theorem dim_input_115:
  "length (dim_embeddings origin_call_size stands_size) = 7
   \<and> sum_list (map (\<lambda>(_, _, x). x) (dim_embeddings origin_call_size stands_size)) = 75
   \<and> n_begin_end_pts * 2 * 2 = 40
   \<and> dim_input origin_call_size stands_size = n_begin_end_pts * 2 * 2 + 75
   \<and> dim_input origin_call_size stands_size = 115"
  by (simp add: dim_input_def dim_embeddings_def n_begin_end_pts_def)

text \<open>
  C7. The loop that builds \<open>time_tgtcls\<close> finishes without an index error; the list has
  23 elements, starts with 1, 2, every later element is the sum of the two elements
  before it, and \<open>dim_output_time\<close> is its length, 23.
\<close>

theorem time_tgtcls_fibonacci:
  "\<exists>ts. time_tgtcls = Some ts \<and> length ts = 23 \<and> take 2 ts = [1, 2]
        \<and> (\<forall>i. 2 \<le> i \<and> i < 23 \<longrightarrow> ts ! i = ts ! (i - 1) + ts ! (i - 2))
        \<and> dim_output_time = Some 23"
proof -
  have two: "2 \<le> length [1, 2 :: int]" by simp
  from time_tgtcls_loop_defined[OF two, of 21]
  obtain ts where ts: "time_tgtcls_loop 21 [1, 2] = Some ts" by blast
  have l2: "length [1, 2 :: int] = 2" by simp
  from time_tgtcls_loop_spec[OF two ts, unfolded l2]
  have len: "length ts = 23" and tk: "take 2 ts = [1, 2]"
    and rule: "\<forall>i. 2 \<le> i \<and> i < length ts \<longrightarrow> ts ! i = ts ! (i - 1) + ts ! (i - 2)"
    by simp_all
  from rule len
  have rule': "\<forall>i. 2 \<le> i \<and> i < 23 \<longrightarrow> ts ! i = ts ! (i - 1) + ts ! (i - 2)"
    by simp
  have "time_tgtcls = Some ts" using ts by (simp add: time_tgtcls_def)
  moreover have "dim_output_time = Some 23"
    using ts len by (simp add: time_tgtcls_def dim_output_time_def)
  ultimately show ?thesis using len tk rule' by blast
qed

theorem time_tgtcls_fibonacci_witness:
  "\<exists>ts. time_tgtcls = Some ts \<and> (2::nat) \<le> 2 \<and> (2::nat) < 23
        \<and> ts ! 0 = 1 \<and> ts ! 1 = 2 \<and> ts ! 2 = 3"
proof -
  from time_tgtcls_fibonacci obtain ts where
    ts: "time_tgtcls = Some ts" and tk: "take 2 ts = [1, 2]" and len: "length ts = 23"
    and rule: "\<forall>i. 2 \<le> i \<and> i < 23 \<longrightarrow> ts ! i = ts ! (i - 1) + ts ! (i - 2)"
    by blast
  have "take 2 ts ! 0 = ts ! 0" and "take 2 ts ! 1 = ts ! 1" by simp_all
  with tk have a: "ts ! 0 = 1" and b: "ts ! 1 = 2" by simp_all
  from rule have "ts ! 2 = ts ! (2 - 1) + ts ! (2 - 2)" by simp
  with a b have "ts ! 2 = 3" by simp
  with ts a b show ?thesis by (intro exI[of _ ts]) simp
qed


section \<open>Properties of the data streams\<close>

subsection \<open>The stages of the three pipelines\<close>

lemma get_data_slice_all: "get_data_slice st d 0 (num_examples st d) = st d"
  by (simp add: get_data_slice_def num_examples_def)

lemma train_stages:
  "stages (train config st req_vars) =
     [TaxiExcludeTrips (st (TaxiDataset_file (valid_set config) ''valid.hdf5'' [''trip_id''])),
      TaxiExcludeEmptyTrips, taxi_add_datetime, add_destination,
      Select (non_mask req_vars),
      balanced_batch ''latitude'' (batch_size config) (batch_sort_size config),
      Padding [''latitude'', ''longitude''],
      Select req_vars]"
  by (simp add: train_def Let_def get_data_slice_all)

lemma valid_stages:
  "stages (valid config req_vars) =
     [taxi_add_datetime, add_destination, Select (non_mask req_vars),
      Batch (ConstantScheme 1000), Padding [''latitude'', ''longitude''], Select req_vars]"
  by (simp add: valid_def Let_def)

lemma test_stages:
  "stages (test config req_vars) =
     [taxi_add_datetime, taxi_remove_test_only_clients, Select (non_mask req_vars),
      Batch (ConstantScheme 1), Padding [''latitude'', ''longitude''], Select req_vars]"
  by (simp add: test_def Let_def)

lemma set_non_mask: "set (non_mask req) = {v \<in> set req. \<not> endswith v ''_mask''}"
  by (auto simp: non_mask_def)


lemma is_batching_sources: "is_batching b \<Longrightarrow> transformer_sources b ss = Some ss"
  by (cases b) (auto simp: is_batching_def)





lemma sources_select_tail:
  assumes "is_batching b" "sources D s0 = Some up"
  shows "sources D (Transformer (Transformer (Transformer (Transformer s0 (Select nm)) b) (Padding ms)) (Select req)) =
     (if set nm \<subseteq> set up \<and> set req \<subseteq> set (padding_sources ms nm)
      then Some req else None)"
  using assms by (simp add: is_batching_sources)



lemma test_shape:
  "\<exists>s0 b. test config req = Transformer (Transformer (Transformer (Transformer s0 (Select (non_mask req))) b) (Padding [''latitude'', ''longitude''])) (Select req)
     \<and> is_batching b \<and> b = Batch (ConstantScheme 1)"
  by (simp add: test_def Let_def is_batching_def)

lemma sources_valid_before:
  "sources D (before_select (valid config req)) =
     Some (D (TaxiStream (valid_set config) (Some ''valid.hdf5'')) @ datetime_fields @ destination_fields)"
  by (simp add: valid_def Let_def before_select_def)

lemma sources_test_before:
  "sources D (before_select (test config req)) = Some (D (TaxiStream ''test'' None) @ datetime_fields)"
  by (simp add: test_def Let_def before_select_def)

lemma sources_train_before:
  "sources D (before_select (train config st req)) =
     Some (D (DataStream (TaxiDataset ''train'') (ShuffledExampleScheme (num_examples st (TaxiDataset ''train''))))
           @ datetime_fields @ destination_fields)"
  by (simp add: train_def Let_def before_select_def)




text \<open>
  C2. \<open>Stream.train\<close> starts from a shuffled iteration over all examples of the
  \<open>train\<close> dataset and applies, in this order: the exclusion of the trips whose id is in
  the \<open>trip_id\<close> column of the validation dataset (the whole column), the exclusion of
  empty trips, the datetime fields, the destination fields, the selection of the
  requested variables that do not end in \<open>_mask\<close>, balanced batching keyed on
  \<open>latitude\<close> with the configured batch size, padding, and the selection of exactly the
  requested variables.
\<close>

theorem train_composition:
  "origin (train config st req_vars) =
      DataStream (TaxiDataset ''train'')
        (ShuffledExampleScheme (num_examples st (TaxiDataset ''train'')))
   \<and> stages (train config st req_vars) =
      [TaxiExcludeTrips (st (TaxiDataset_file (valid_set config) ''valid.hdf5'' [''trip_id''])),
       TaxiExcludeEmptyTrips,
       taxi_add_datetime,
       add_destination,
       Select (filter (\<lambda>v. \<not> endswith v ''_mask'') req_vars),
       balanced_batch ''latitude'' (batch_size config) (batch_sort_size config),
       Padding [''latitude'', ''longitude''],
       Select req_vars]"
  by (simp add: train_def Let_def get_data_slice_all non_mask_def)

text \<open>
  C6. \<open>Stream.valid\<close> batches with the constant batch size 1000 and \<open>Stream.test\<close>
  with the constant batch size 1; in both the batching stage comes directly after the
  selection of the non-mask variables and directly before the padding.
\<close>

theorem valid_test_batch_sizes:
  "stages (valid config req_vars) =
      [taxi_add_datetime, add_destination, Select (non_mask req_vars),
       Batch (ConstantScheme 1000), Padding [''latitude'', ''longitude''], Select req_vars]
   \<and> stages (test config req_vars) =
      [taxi_add_datetime, taxi_remove_test_only_clients, Select (non_mask req_vars),
       Batch (ConstantScheme 1), Padding [''latitude'', ''longitude''], Select req_vars]"
  by (simp add: valid_def test_def Let_def)

subsection \<open>Sources of the returned stream\<close>




lemma destination_not_mask:
  "d \<in> set destination_fields \<Longrightarrow> \<not> endswith d ''_mask''"
  by (auto simp: destination_fields_def endswith_def)

lemma destination_not_datetime:
  "d \<in> set destination_fields \<Longrightarrow> d \<notin> set datetime_fields"
  by (auto simp: destination_fields_def datetime_fields_def)

lemma test_sources_Some:
  assumes "sources D (test config req) = Some ss"
  shows "ss = req \<and> set (non_mask req) \<subseteq> set (D (TaxiStream ''test'' None) @ datetime_fields)"
proof -
  from test_shape[of config req] obtain s0 b where
    sh: "test config req = Transformer (Transformer (Transformer (Transformer s0 (Select (non_mask req))) b)
               (Padding [''latitude'', ''longitude''])) (Select req)"
    and kb: "is_batching b" by blast
  have "before_select (test config req) = s0" unfolding sh before_select_def by simp
  with sources_test_before[of D config req]
  have up: "sources D s0 = Some (D (TaxiStream ''test'' None) @ datetime_fields)" by simp
  from assms show ?thesis
    unfolding sh sources_select_tail[OF kb up] by (simp split: if_splits)
qed

text \<open>
  C10. \<open>Stream.test\<close> starts from the \<open>test\<close> stream, adds the datetime fields and
  removes the test-only clients before the selection, batching and padding stages, and
  has no other stage, in particular none that adds the destination, whereas
  \<open>Stream.train\<close> and \<open>Stream.valid\<close> have one. So a destination field is a source
  of the test stream only if the \<open>test\<close> dataset provides it, while the streams of
  \<open>train\<close> and \<open>valid\<close> carry the destination fields before the selection whatever their
  dataset provides.
\<close>

theorem test_never_adds_destination:
  "origin (test config req_vars) = TaxiStream ''test'' None
   \<and> stages (test config req_vars) =
        [taxi_add_datetime, taxi_remove_test_only_clients, Select (non_mask req_vars),
         Batch (ConstantScheme 1), Padding [''latitude'', ''longitude''], Select req_vars]
   \<and> add_destination \<notin> set (stages (test config req_vars))
   \<and> add_destination \<in> set (stages (train config st req_vars))
   \<and> add_destination \<in> set (stages (valid config req_vars))
   \<and> (\<forall>ss d. sources D (test config req_vars) = Some ss \<and> d \<in> set destination_fields \<and> d \<in> set ss
         \<longrightarrow> d \<in> set (D (TaxiStream ''test'' None)))
   \<and> (\<exists>up. sources D (before_select (train config st req_vars)) = Some (up @ destination_fields))
   \<and> (\<exists>up. sources D (before_select (valid config req_vars)) = Some (up @ destination_fields))"
proof -
  have o: "origin (test config req_vars) = TaxiStream ''test'' None"
    by (simp add: test_def Let_def)
  have t2: "stages (test config req_vars) =
        [taxi_add_datetime, taxi_remove_test_only_clients, Select (non_mask req_vars),
         Batch (ConstantScheme 1), Padding [''latitude'', ''longitude''], Select req_vars]"
    by (rule test_stages)
  have n: "add_destination \<notin> set (stages (test config req_vars))"
    by (simp add: test_stages)
  have a1: "add_destination \<in> set (stages (train config st req_vars))"
    by (simp add: train_stages)
  have a2: "add_destination \<in> set (stages (valid config req_vars))"
    by (simp add: valid_stages)
  have sem: "\<forall>ss d. sources D (test config req_vars) = Some ss \<and> d \<in> set destination_fields \<and> d \<in> set ss
         \<longrightarrow> d \<in> set (D (TaxiStream ''test'' None))"
  proof (intro allI impI, elim conjE)
    fix ss d
    assume ss: "sources D (test config req_vars) = Some ss"
      and d: "d \<in> set destination_fields" and dss: "d \<in> set ss"
    from test_sources_Some[OF ss] have eq: "ss = req_vars"
      and sub: "set (non_mask req_vars) \<subseteq> set (D (TaxiStream ''test'' None) @ datetime_fields)"
      by simp_all
    from dss eq destination_not_mask[OF d] have "d \<in> set (non_mask req_vars)"
      by (simp add: set_non_mask)
    with sub have "d \<in> set (D (TaxiStream ''test'' None)) \<or> d \<in> set datetime_fields" by auto
    with destination_not_datetime[OF d] show "d \<in> set (D (TaxiStream ''test'' None))" by blast
  qed
  have u1: "\<exists>up. sources D (before_select (train config st req_vars)) = Some (up @ destination_fields)"
    unfolding sources_train_before by (metis append_assoc)
  have u2: "\<exists>up. sources D (before_select (valid config req_vars)) = Some (up @ destination_fields)"
    unfolding sources_valid_before by (metis append_assoc)
  from o t2 n a1 a2 sem u1 u2 show ?thesis by (intro conjI)
qed

theorem test_never_adds_destination_witness:
  "sources (\<lambda>s. [''latitude'', ''destination_latitude''])
     (test \<lparr>valid_set = ''cuts/test_times_0'', batch_size = 200, batch_sort_size = 20\<rparr>
        [''latitude'', ''destination_latitude''])
     = Some [''latitude'', ''destination_latitude'']
   \<and> ''destination_latitude'' \<in> set destination_fields
   \<and> ''destination_latitude'' \<in> set ((\<lambda>s. [''latitude'', ''destination_latitude'']) (TaxiStream ''test'' None))
   \<and> sources (\<lambda>s. [''latitude''])
     (test \<lparr>valid_set = ''cuts/test_times_0'', batch_size = 200, batch_sort_size = 20\<rparr>
        [''latitude'', ''destination_latitude'']) = None
   \<and> sources (\<lambda>s. [''latitude''])
     (valid \<lparr>valid_set = ''cuts/test_times_0'', batch_size = 200, batch_sort_size = 20\<rparr>
        [''latitude'', ''destination_latitude'']) = Some [''latitude'', ''destination_latitude'']"
proof -
  let ?c = "\<lparr>valid_set = ''cuts/test_times_0'', batch_size = 200, batch_sort_size = 20\<rparr>"
  let ?req = "[''latitude'', ''destination_latitude'']"
  let ?D = "\<lambda>s::stream. [''latitude'', ''destination_latitude'']"
  let ?D' = "\<lambda>s::stream. [''latitude'']"
  have e: "\<not> endswith ''latitude'' ''_mask''" "\<not> endswith ''destination_latitude'' ''_mask''"
    by (simp_all add: endswith_def)
  have nm: "non_mask ?req = ?req" using e by (simp add: non_mask_def)
  have s1: "sources ?D (test ?c ?req) = Some ?req"
    by (simp add: test_def Let_def nm padding_sources_def datetime_fields_def)
  have d: "''destination_latitude'' \<in> set destination_fields"
    by (simp add: destination_fields_def)
  have m: "''destination_latitude'' \<in> set ?req" by simp
  note t = test_never_adds_destination[of ?c ?req "\<lambda>d. []" ?D]
  have "\<forall>ss d. sources ?D (test ?c ?req) = Some ss \<and> d \<in> set destination_fields \<and> d \<in> set ss
         \<longrightarrow> d \<in> set (?D (TaxiStream ''test'' None))"
    by (rule t[THEN conjunct2, THEN conjunct2, THEN conjunct2, THEN conjunct2, THEN conjunct2,
          THEN conjunct1])
  with s1 d m have c: "''destination_latitude'' \<in> set (?D (TaxiStream ''test'' None))" by blast
  have s2: "sources ?D' (test ?c ?req) = None"
    by (simp add: test_def Let_def nm padding_sources_def datetime_fields_def)
  have s3: "sources ?D' (valid ?c ?req) = Some ?req"
    by (simp add: valid_def Let_def nm padding_sources_def datetime_fields_def destination_fields_def)
  from s1 d c s2 s3 show ?thesis by (intro conjI)
qed


section \<open>Properties of the recurrent model\<close>

subsection \<open>Shapes\<close>

lemma has_shape_nth:
  "has_shape n d M \<longleftrightarrow> length M = n \<and> (\<forall>i<n. length (M ! i) = d)"
  by (auto simp: has_shape_def list_all_length)

lemma has_shape_map2_append:
  "has_shape n d M \<Longrightarrow> has_shape n e N \<Longrightarrow> has_shape n (d + e) (map2 (@) M N)"
  by (simp add: has_shape_nth)

lemma has_shape_concatenate_axis1:
  "ms \<noteq> [] \<Longrightarrow> list_all2 (has_shape n) ds ms \<Longrightarrow> has_shape n (sum_list ds) (concatenate_axis1 ms)"
proof (induction ms arbitrary: ds rule: concatenate_axis1.induct)
  case 1
  then show ?case by simp
next
  case (2 m)
  then show ?case by (auto simp: list_all2_Cons2)
next
  case (3 m v va)
  from "3.prems"(2) obtain d ds' where ds: "ds = d # ds'" and m: "has_shape n d m"
    and rest: "list_all2 (has_shape n) ds' (v # va)"
    by (auto simp: list_all2_Cons2)
  from "3.IH"[OF _ rest] have "has_shape n (sum_list ds') (concatenate_axis1 (v # va))" by simp
  with m show ?case unfolding ds by (simp add: has_shape_map2_append)
qed

lemma has_shape_shape_padright: "has_shape (length v) 1 (shape_padright v)"
  by (simp add: has_shape_def shape_padright_def list_all_iff)

lemma has_shape_repeat_axis1:
  "has_shape n d M \<Longrightarrow> has_shape n (k * d) (repeat_axis1 k M)"
  by (auto simp: has_shape_def repeat_axis1_def list_all_iff length_concat comp_def sum_list_triv)

lemma list_all2_append_shapes:
  "list_all2 (has_shape n) ds ms \<Longrightarrow> list_all2 (has_shape n) es ns \<Longrightarrow>
   list_all2 (has_shape n) (ds @ es) (ms @ ns)"
  by (rule list_all2_appendI)

lemma input_to_rec_in_shape:
  assumes pre: "list_all2 (has_shape n) ds (pre_context_embedder_apply m kwargs)"
    and la: "length latitude = n" and lo: "length longitude = n"
  shows "has_shape n (2 + sum_list ds) (input_to_rec_in g m kwargs latitude longitude)"
proof -
  let ?la = "shape_padright (map (normalize_latitude g) latitude)"
  let ?lo = "shape_padright (map (normalize_longitude g) longitude)"
  have "has_shape n 1 ?la" "has_shape n 1 ?lo"
    using has_shape_shape_padright[of "map (normalize_latitude g) latitude"]
      has_shape_shape_padright[of "map (normalize_longitude g) longitude"] la lo by simp_all
  then have "list_all2 (has_shape n) [1, 1] [?la, ?lo]" by simp
  with pre have "list_all2 (has_shape n) (ds @ [1, 1]) (pre_context_embedder_apply m kwargs @ [?la, ?lo])"
    by (rule list_all2_appendI)
  from has_shape_concatenate_axis1[OF _ this]
  have "has_shape n (sum_list (ds @ [1, 1])) (concatenate_axis1 (pre_context_embedder_apply m kwargs @ [?la, ?lo]))"
    by simp
  then show ?thesis by (simp add: input_to_rec_in_def Let_def)
qed

lemma rec_to_output_in_shape:
  assumes post: "list_all2 (has_shape n) ds (post_context_embedder_apply m kwargs)"
    and ns: "has_shape n h next_states"
  shows "has_shape n (h + sum_list ds) (rec_to_output_in m kwargs next_states)"
proof -
  from ns have "list_all2 (has_shape n) [h] [next_states]" by simp
  with post have "list_all2 (has_shape n) (ds @ [h]) (post_context_embedder_apply m kwargs @ [next_states])"
    by (rule list_all2_appendI)
  from has_shape_concatenate_axis1[OF _ this]
  have "has_shape n (sum_list (ds @ [h])) (concatenate_axis1 (post_context_embedder_apply m kwargs @ [next_states]))"
    by simp
  then show ?thesis by (simp add: rec_to_output_in_def Let_def add.commute)
qed

lemma ex_predict_all:
  "fst (predict_all ex_gps ex_bricks () (transpose ex_latitude) (transpose ex_longitude)
          (transpose ex_mask)) = [[(42, - 8), (41, - 9)], [(43, - 7), (40, - 8)]]"
  by code_simp

lemma ex_shapes:
  "has_shape 2 2 ex_latitude" "has_shape 2 2 ex_longitude" "has_shape 2 2 ex_mask"
  by (simp_all add: has_shape_def ex_latitude_def ex_longitude_def ex_mask_def)

subsection \<open>Layer dimensions\<close>

lemma predict_all_step_bricks:
  "predict_all_step g m kwargs latitude longitude latitude_mask states cells =
     (let x = concatenate_axis1 (pre_context_embedder_apply m kwargs
                @ [shape_padright (map (normalize_latitude g) latitude),
                   shape_padright (map (normalize_longitude g) longitude)]);
          itr = map (\<lambda>row. concat (map (replicate 4) row)) (input_to_rec_apply m x);
          out = rec_apply m itr states cells latitude_mask;
          y = concatenate_axis1 (post_context_embedder_apply m kwargs @ [fst out])
      in (map (denormalize g) (rec_to_output_apply m y), fst out, snd out))"
  by (simp add: predict_all_step_def rec_input_def input_to_rec_out_def input_to_rec_in_def
      rec_to_output_in_def repeat_axis1_def Let_def split: prod.splits)

text \<open>
  C5. \<open>Model.__init__\<close> builds an input MLP with Tanh from dimension 2 plus the sum of
  the embedding dimensions of the pre-embedder to \<open>hidden_state_dim\<close>, an LSTM of
  dimension \<open>hidden_state_dim\<close>, and an output MLP with Tanh from \<open>hidden_state_dim\<close>
  plus the sum of the embedding dimensions of the post-embedder to dimension 2. A step
  of \<open>predict_all\<close> on a batch of \<open>n\<close> examples whose embeddings have the configured
  dimensions gives the input MLP a matrix of the width the MLP was built for, applies
  the LSTM to the output of the input MLP with every entry repeated 4 times (4 times as
  wide as the LSTM dimension when the MLP output has its declared width), gives the
  output MLP the post-embeddings joined with the new states, a matrix of the width that
  MLP was built for, and returns the denormalized output of the output MLP with the new
  states and cells.
\<close>

theorem model_layer_dimensions:
  assumes pre: "list_all2 (has_shape n) (embedding_dims (pre_embedder config))
                  (pre_context_embedder_apply m kwargs)"
    and post: "list_all2 (has_shape n) (embedding_dims (post_embedder config))
                  (post_context_embedder_apply m kwargs)"
    and la: "length latitude = n" and lo: "length longitude = n"
  shows "activations (input_to_rec (Model_init config)) = [Tanh]
    \<and> dims (input_to_rec (Model_init config)) =
        [2 + sum_list (embedding_dims (pre_embedder config)), hidden_state_dim config]
    \<and> dim (rec (Model_init config)) = hidden_state_dim config
    \<and> activations (rec_to_output (Model_init config)) = [Tanh]
    \<and> dims (rec_to_output (Model_init config)) =
        [hidden_state_dim config + sum_list (embedding_dims (post_embedder config)), 2]
    \<and> (\<exists>x itr next_states next_cells y.
          x = concatenate_axis1 (pre_context_embedder_apply m kwargs
                @ [shape_padright (map (normalize_latitude g) latitude),
                   shape_padright (map (normalize_longitude g) longitude)])
        \<and> has_shape n (hd (dims (input_to_rec (Model_init config)))) x
        \<and> itr = map (\<lambda>row. concat (map (replicate 4) row)) (input_to_rec_apply m x)
        \<and> (has_shape n (last (dims (input_to_rec (Model_init config)))) (input_to_rec_apply m x)
             \<longrightarrow> has_shape n (4 * dim (rec (Model_init config))) itr)
        \<and> rec_apply m itr states cells latitude_mask = (next_states, next_cells)
        \<and> y = concatenate_axis1 (post_context_embedder_apply m kwargs @ [next_states])
        \<and> (has_shape n (dim (rec (Model_init config))) next_states
             \<longrightarrow> has_shape n (hd (dims (rec_to_output (Model_init config)))) y)
        \<and> predict_all_step g m kwargs latitude longitude latitude_mask states cells =
             (map (denormalize g) (rec_to_output_apply m y), next_states, next_cells))"
proof -
  let ?x = "concatenate_axis1 (pre_context_embedder_apply m kwargs
                @ [shape_padright (map (normalize_latitude g) latitude),
                   shape_padright (map (normalize_longitude g) longitude)])"
  let ?itr = "map (\<lambda>row. concat (map (replicate 4) row)) (input_to_rec_apply m ?x)"
  let ?out = "rec_apply m ?itr states cells latitude_mask"
  let ?y = "concatenate_axis1 (post_context_embedder_apply m kwargs @ [fst ?out])"
  have d: "activations (input_to_rec (Model_init config)) = [Tanh]"
    "dims (input_to_rec (Model_init config)) =
        [2 + sum_list (embedding_dims (pre_embedder config)), hidden_state_dim config]"
    "dim (rec (Model_init config)) = hidden_state_dim config"
    "activations (rec_to_output (Model_init config)) = [Tanh]"
    "dims (rec_to_output (Model_init config)) =
        [hidden_state_dim config + sum_list (embedding_dims (post_embedder config)), 2]"
    by (simp_all add: Model_init_def Let_def embedding_dims_def)
  have xin: "?x = input_to_rec_in g m kwargs latitude longitude"
    by (simp add: input_to_rec_in_def Let_def)
  have i: "has_shape n (hd (dims (input_to_rec (Model_init config)))) ?x"
    unfolding d xin using input_to_rec_in_shape[OF pre la lo] by simp
  have r4: "has_shape n (last (dims (input_to_rec (Model_init config)))) (input_to_rec_apply m ?x)
         \<longrightarrow> has_shape n (4 * dim (rec (Model_init config))) ?itr"
    unfolding d using has_shape_repeat_axis1[of n "hidden_state_dim config" "input_to_rec_apply m ?x" 4]
    by (simp add: repeat_axis1_def)
  have yin: "?y = rec_to_output_in m kwargs (fst ?out)"
    by (simp add: rec_to_output_in_def Let_def)
  have o: "has_shape n (dim (rec (Model_init config))) (fst ?out)
         \<longrightarrow> has_shape n (hd (dims (rec_to_output (Model_init config)))) ?y"
    unfolding d yin using rec_to_output_in_shape[OF post] by simp
  have st: "predict_all_step g m kwargs latitude longitude latitude_mask states cells =
             (map (denormalize g) (rec_to_output_apply m ?y), fst ?out, snd ?out)"
    unfolding predict_all_step_bricks Let_def ..
  have ex: "\<exists>x itr next_states next_cells y.
          x = ?x
        \<and> has_shape n (hd (dims (input_to_rec (Model_init config)))) x
        \<and> itr = map (\<lambda>row. concat (map (replicate 4) row)) (input_to_rec_apply m x)
        \<and> (has_shape n (last (dims (input_to_rec (Model_init config)))) (input_to_rec_apply m x)
             \<longrightarrow> has_shape n (4 * dim (rec (Model_init config))) itr)
        \<and> rec_apply m itr states cells latitude_mask = (next_states, next_cells)
        \<and> y = concatenate_axis1 (post_context_embedder_apply m kwargs @ [next_states])
        \<and> (has_shape n (dim (rec (Model_init config))) next_states
             \<longrightarrow> has_shape n (hd (dims (rec_to_output (Model_init config)))) y)
        \<and> predict_all_step g m kwargs latitude longitude latitude_mask states cells =
             (map (denormalize g) (rec_to_output_apply m y), next_states, next_cells)"
    apply (rule exI[of _ ?x])
    apply (rule exI[of _ ?itr])
    apply (rule exI[of _ "fst ?out"])
    apply (rule exI[of _ "snd ?out"])
    apply (rule exI[of _ ?y])
    apply (intro conjI refl i r4 o st)
    apply simp
    done
  from d ex show ?thesis by (intro conjI)
qed

theorem model_layer_dimensions_witness:
  "dims (input_to_rec (Model_init ex_config)) = [4, 3]
   \<and> dims (rec_to_output (Model_init ex_config)) = [4, 2]
   \<and> has_shape 2 4
        (concatenate_axis1 (pre_context_embedder_apply ex_bricks ()
           @ [shape_padright (map (normalize_latitude ex_gps) [42, 41]),
              shape_padright (map (normalize_longitude ex_gps) [- 8, - 9])]))
   \<and> has_shape 2 12
        (map (\<lambda>row. concat (map (replicate 4) row))
           (input_to_rec_apply ex_bricks
              (concatenate_axis1 (pre_context_embedder_apply ex_bricks ()
                 @ [shape_padright (map (normalize_latitude ex_gps) [42, 41]),
                    shape_padright (map (normalize_longitude ex_gps) [- 8, - 9])]))))
   \<and> predict_all_step ex_gps ex_bricks () [42, 41] [- 8, - 9] [1, 1]
        [[0, 0, 0], [0, 0, 0]] [[0, 0, 0], [0, 0, 0]]
      = ([(42, - 8), (41, - 9)], [[3, 2, 0], [7, 0, - 4]], [[0, 0, 0], [0, 0, 0]])"
proof -
  let ?x = "concatenate_axis1 (pre_context_embedder_apply ex_bricks ()
           @ [shape_padright (map (normalize_latitude ex_gps) [42, 41]),
              shape_padright (map (normalize_longitude ex_gps) [- 8, - 9])])"
  have pre: "list_all2 (has_shape 2) (embedding_dims (pre_embedder ex_config))
                  (pre_context_embedder_apply ex_bricks ())"
    by (simp add: embedding_dims_def ex_config_def ex_bricks_def has_shape_def)
  have post: "list_all2 (has_shape 2) (embedding_dims (post_embedder ex_config))
                  (post_context_embedder_apply ex_bricks ())"
    by (simp add: embedding_dims_def ex_config_def ex_bricks_def has_shape_def)
  have l: "length [42, 41 :: real] = 2" "length [- 8, - 9 :: real] = 2" by simp_all
  note t = model_layer_dimensions[OF pre post l, of ex_gps "[[0, 0, 0], [0, 0, 0]]"
      "[[0, 0, 0], [0, 0, 0]]" "[1, 1]"]
  have d1: "dims (input_to_rec (Model_init ex_config)) =
        [2 + sum_list (embedding_dims (pre_embedder ex_config)), hidden_state_dim ex_config]"
    by (rule t[THEN conjunct2, THEN conjunct1])
  have d2: "dim (rec (Model_init ex_config)) = hidden_state_dim ex_config"
    by (rule t[THEN conjunct2, THEN conjunct2, THEN conjunct1])
  have d3: "dims (rec_to_output (Model_init ex_config)) =
        [hidden_state_dim ex_config + sum_list (embedding_dims (post_embedder ex_config)), 2]"
    by (rule t[THEN conjunct2, THEN conjunct2, THEN conjunct2, THEN conjunct2, THEN conjunct1])
  have v: "sum_list (embedding_dims (pre_embedder ex_config)) = 2"
    "sum_list (embedding_dims (post_embedder ex_config)) = 1" "hidden_state_dim ex_config = 3"
    by (simp_all add: embedding_dims_def ex_config_def)
  have d: "dims (input_to_rec (Model_init ex_config)) = [4, 3]"
    "dims (rec_to_output (Model_init ex_config)) = [4, 2]"
    "dim (rec (Model_init ex_config)) = 3"
    using d1 d2 d3 v by simp_all
  from t[THEN conjunct2, THEN conjunct2, THEN conjunct2, THEN conjunct2, THEN conjunct2]
  obtain x itr where x: "x = ?x"
    and xs: "has_shape 2 (hd (dims (input_to_rec (Model_init ex_config)))) x"
    and itr: "itr = map (\<lambda>row. concat (map (replicate 4) row)) (input_to_rec_apply ex_bricks x)"
    and imp: "has_shape 2 (last (dims (input_to_rec (Model_init ex_config)))) (input_to_rec_apply ex_bricks x)
             \<longrightarrow> has_shape 2 (4 * dim (rec (Model_init ex_config))) itr"
    by (elim exE conjE)
  from xs have a: "has_shape 2 4 ?x" unfolding x d by simp
  have mid: "has_shape 2 3 (input_to_rec_apply ex_bricks ?x)"
    by (simp add: has_shape_def ex_bricks_def shape_padright_def)
  with imp have b: "has_shape 2 12
        (map (\<lambda>row. concat (map (replicate 4) row)) (input_to_rec_apply ex_bricks ?x))"
    unfolding itr x d by simp
  have c: "predict_all_step ex_gps ex_bricks () [42, 41] [- 8, - 9] [1, 1]
        [[0, 0, 0], [0, 0, 0]] [[0, 0, 0], [0, 0, 0]]
      = ([(42, - 8), (41, - 9)], [[3, 2, 0], [7, 0, - 4]], [[0, 0, 0], [0, 0, 0]])"
    by code_simp
  from d(1,2) a b c show ?thesis by (intro conjI)
qed

subsection \<open>The prediction is the last step\<close>

lemma getitem_minus_one:
  "getitem xs (- 1) = (if xs = [] then Inl IndexError else Inr (last xs))"
proof (cases xs rule: rev_cases)
  case Nil
  then show ?thesis by (simp add: getitem_def)
next
  case (snoc ys y)
  then show ?thesis by (simp add: getitem_def nat_add_distrib nth_append)
qed

lemma length_recurrent_loop: "length (recurrent_loop f xs s c) = length xs"
  by (induction f xs s c rule: recurrent_loop.induct) (simp_all add: Let_def)

lemma length_predict_all:
  "length (fst (predict_all g m kwargs la lo ma)) = min (length la) (min (length lo) (length ma))"
  by (simp add: predict_all_def Let_def length_recurrent_loop)

lemma length_transpose_shape:
  assumes "has_shape n T M" "0 < n"
  shows "length (transpose M) = T"
proof -
  from assms have rect: "\<And>i. i < length M \<Longrightarrow> length (M ! i) = T" and ne: "M \<noteq> []"
    by (auto simp: has_shape_nth)
  have "transpose M = map (\<lambda>i. map (\<lambda>j. M ! j ! i) [0..<length M]) [0..<T]"
    by (rule transpose_rectangle) (use ne rect in simp_all)
  then show ?thesis by simp
qed

lemma recurrent_loop_last:
  "xs \<noteq> [] \<Longrightarrow>
     \<exists>s c. last (recurrent_loop f xs s0 c0) =
       f (fst (last xs)) (fst (snd (last xs))) (snd (snd (last xs))) s c"
proof (induction xs arbitrary: s0 c0)
  case Nil
  then show ?case by simp
next
  case (Cons x xs)
  obtain la lo ma where x: "x = (la, lo, ma)" by (cases x)
  show ?case
  proof (cases "xs = []")
    case True
    then show ?thesis unfolding x by (auto simp: Let_def)
  next
    case False
    let ?out = "f la lo ma s0 c0"
    from Cons.IH[OF False, of "fst (snd ?out)" "snd (snd ?out)"]
    obtain s c where
      "last (recurrent_loop f xs (fst (snd ?out)) (snd (snd ?out))) =
         f (fst (last xs)) (fst (snd (last xs))) (snd (snd (last xs))) s c"
      by blast
    moreover have "recurrent_loop f xs (fst (snd ?out)) (snd (snd ?out)) \<noteq> []"
      using False length_recurrent_loop[of f xs] by (metis length_0_conv)
    ultimately show ?thesis unfolding x using False by (auto simp: Let_def)
  qed
qed

lemma predict_all_last:
  assumes "length la = T" "length lo = T" "length ma = T" "0 < T"
  shows "\<exists>states cells. last (fst (predict_all g m kwargs la lo ma)) =
           fst (predict_all_step g m kwargs (la ! (T - 1)) (lo ! (T - 1)) (ma ! (T - 1)) states cells)"
proof -
  let ?xs = "zip la (zip lo ma)"
  let ?b = "case la of [] \<Rightarrow> 0 | row # _ \<Rightarrow> length row"
  let ?outs = "recurrent_loop (predict_all_step g m kwargs) ?xs
                 (rec_initial_state m ''states'' ?b) (rec_initial_state m ''cells'' ?b)"
  from assms have ne: "?xs \<noteq> []" by (cases la; cases lo; cases ma) auto
  from assms have len: "length ?xs = T" by simp
  have lx: "last ?xs = (la ! (T - 1), lo ! (T - 1), ma ! (T - 1))"
    using ne len assms by (simp add: last_conv_nth)
  from recurrent_loop_last[OF ne] obtain s c where
    l: "last ?outs = predict_all_step g m kwargs (fst (last ?xs)) (fst (snd (last ?xs)))
          (snd (snd (last ?xs))) s c"
    by blast
  have "?outs \<noteq> []" using ne length_recurrent_loop[of "predict_all_step g m kwargs" ?xs]
    by (metis length_0_conv)
  then have "last (map fst ?outs) = fst (last ?outs)" by (simp add: last_map)
  with l lx have "last (fst (predict_all g m kwargs la lo ma)) =
           fst (predict_all_step g m kwargs (la ! (T - 1)) (lo ! (T - 1)) (ma ! (T - 1)) s c)"
    by (simp add: predict_all_def Let_def)
  then show ?thesis by blast
qed

text \<open>
  C1. \<open>predict\<close> transposes its three sequence inputs to time-major order, runs
  \<open>predict_all\<close> on them and returns the last element of the destination sequence; on an
  empty time axis there is no last element and the indexing fails. For a batch of
  \<open>n > 0\<close> trajectories of \<open>T > 0\<close> points the destination sequence has \<open>T\<close> elements
  and \<open>predict\<close> returns the one at index \<open>T - 1\<close>, which is what the body of
  \<open>predict_all\<close> computes from the inputs of the last time step and the states left by
  the steps before it.
\<close>

theorem predict_last_step:
  "predict g m kwargs latitude longitude latitude_mask =
     (let res = fst (predict_all g m kwargs (transpose latitude) (transpose longitude)
                       (transpose latitude_mask))
      in if res = [] then Inl IndexError else Inr (last res))
   \<and> (0 < n \<and> 0 < T \<and> has_shape n T latitude \<and> has_shape n T longitude
        \<and> has_shape n T latitude_mask
      \<longrightarrow> length (fst (predict_all g m kwargs (transpose latitude) (transpose longitude)
                         (transpose latitude_mask))) = T
        \<and> predict g m kwargs latitude longitude latitude_mask =
            Inr (fst (predict_all g m kwargs (transpose latitude) (transpose longitude)
                        (transpose latitude_mask)) ! (T - 1))
        \<and> (\<exists>states cells. predict g m kwargs latitude longitude latitude_mask =
              Inr (fst (predict_all_step g m kwargs (transpose latitude ! (T - 1))
                          (transpose longitude ! (T - 1)) (transpose latitude_mask ! (T - 1))
                          states cells))))"
proof -
  let ?res = "fst (predict_all g m kwargs (transpose latitude) (transpose longitude)
                       (transpose latitude_mask))"
  have a: "predict g m kwargs latitude longitude latitude_mask =
     (if ?res = [] then Inl IndexError else Inr (last ?res))"
    by (simp add: predict_def Let_def getitem_minus_one)
  have b: "length ?res = T \<and> predict g m kwargs latitude longitude latitude_mask = Inr (?res ! (T - 1))
     \<and> (\<exists>states cells. predict g m kwargs latitude longitude latitude_mask =
              Inr (fst (predict_all_step g m kwargs (transpose latitude ! (T - 1))
                          (transpose longitude ! (T - 1)) (transpose latitude_mask ! (T - 1))
                          states cells)))"
    if h: "0 < n \<and> 0 < T \<and> has_shape n T latitude \<and> has_shape n T longitude
        \<and> has_shape n T latitude_mask"
  proof -
    from h have lens: "length (transpose latitude) = T" "length (transpose longitude) = T"
      "length (transpose latitude_mask) = T"
      using length_transpose_shape[of n T] by blast+
    then have len: "length ?res = T" by (simp add: length_predict_all)
    with h have ne: "?res \<noteq> []" by auto
    from ne len have nth: "last ?res = ?res ! (T - 1)" by (simp add: last_conv_nth)
    from h have T: "0 < T" by simp
    from predict_all_last[OF lens T, of g m kwargs] obtain states cells where
      "last ?res = fst (predict_all_step g m kwargs (transpose latitude ! (T - 1))
                          (transpose longitude ! (T - 1)) (transpose latitude_mask ! (T - 1))
                          states cells)"
      by blast
    with a ne have "\<exists>states cells. predict g m kwargs latitude longitude latitude_mask =
              Inr (fst (predict_all_step g m kwargs (transpose latitude ! (T - 1))
                          (transpose longitude ! (T - 1)) (transpose latitude_mask ! (T - 1))
                          states cells))"
      by auto
    with a ne len nth show ?thesis by simp
  qed
  from b have c: "0 < n \<and> 0 < T \<and> has_shape n T latitude \<and> has_shape n T longitude
        \<and> has_shape n T latitude_mask
      \<longrightarrow> length ?res = T
        \<and> predict g m kwargs latitude longitude latitude_mask = Inr (?res ! (T - 1))
        \<and> (\<exists>states cells. predict g m kwargs latitude longitude latitude_mask =
              Inr (fst (predict_all_step g m kwargs (transpose latitude ! (T - 1))
                          (transpose longitude ! (T - 1)) (transpose latitude_mask ! (T - 1))
                          states cells)))"
    by (rule impI)
  from a c show ?thesis unfolding Let_def by (rule conjI)
qed

theorem predict_last_step_witness:
  "predict ex_gps ex_bricks () ex_latitude ex_longitude ex_mask = Inr [(43, - 7), (40, - 8)]
   \<and> length (fst (predict_all ex_gps ex_bricks () (transpose ex_latitude) (transpose ex_longitude)
          (transpose ex_mask))) = 2"
proof -
  let ?res = "fst (predict_all ex_gps ex_bricks () (transpose ex_latitude) (transpose ex_longitude)
          (transpose ex_mask))"
  have h: "0 < (2::nat) \<and> 0 < (2::nat) \<and> has_shape 2 2 ex_latitude \<and> has_shape 2 2 ex_longitude
        \<and> has_shape 2 2 ex_mask"
    using ex_shapes by simp
  note t = predict_last_step[of ex_gps ex_bricks "()" ex_latitude ex_longitude ex_mask 2 2]
  from t[THEN conjunct2, THEN mp, OF h]
  have "length ?res = 2"
    and "predict ex_gps ex_bricks () ex_latitude ex_longitude ex_mask = Inr (?res ! (2 - 1))"
    by blast+
  then show ?thesis unfolding ex_predict_all by simp
qed

subsection \<open>The cost is a mask-weighted mean\<close>

lemma sum_list_map2_nth:
  fixes f :: "'a \<Rightarrow> 'b \<Rightarrow> real"
  shows "length xs = k \<Longrightarrow> length ys = k \<Longrightarrow> length zs = k \<Longrightarrow>
    sum_list (map2 (*) (map2 f xs ys) zs) = (\<Sum>b<k. f (xs ! b) (ys ! b) * zs ! b)"
proof (induction xs arbitrary: ys zs k)
  case Nil
  then show ?case by simp
next
  case (Cons x xs)
  then obtain y ys' z zs' k' where e: "ys = y # ys'" "zs = z # zs'" "k = Suc k'"
    by (cases ys; cases zs; cases k) auto
  with Cons.prems have l: "length xs = k'" "length ys' = k'" "length zs' = k'" by simp_all
  show ?case unfolding e using Cons.IH[OF l] by (simp del: sum.lessThan_Suc add: sum.lessThan_Suc_shift)
qed

lemma sum_list_concat_map2:
  fixes f :: "'a \<Rightarrow> 'b \<Rightarrow> real"
  shows "has_shape T B xss \<Longrightarrow> has_shape T B yss \<Longrightarrow> has_shape T B zss \<Longrightarrow>
    sum_list (map2 (*) (map2 f (concat xss) (concat yss)) (concat zss)) =
      (\<Sum>t<T. \<Sum>b<B. f (xss ! t ! b) (yss ! t ! b) * zss ! t ! b)"
proof (induction xss arbitrary: yss zss T)
  case Nil
  then show ?case by (simp add: has_shape_def)
next
  case (Cons xs xss)
  then obtain ys yss' zs zss' T' where e: "yss = ys # yss'" "zss = zs # zss'" "T = Suc T'"
    by (cases yss; cases zss; cases T) (auto simp: has_shape_def)
  with Cons.prems have l: "length xs = B" "length ys = B" "length zs = B"
    and r: "has_shape T' B xss" "has_shape T' B yss'" "has_shape T' B zss'"
    by (simp_all add: has_shape_def)
  have z1: "zip (concat (xs # xss)) (concat (ys # yss')) = zip xs ys @ zip (concat xss) (concat yss')"
    using l by simp
  have "map2 (*) (map2 f (concat (xs # xss)) (concat (ys # yss'))) (concat (zs # zss')) =
        map2 (*) (map2 f xs ys) zs @ map2 (*) (map2 f (concat xss) (concat yss')) (concat zss')"
    unfolding z1 using l by simp
  then show ?case unfolding e
    using Cons.IH[OF r] sum_list_map2_nth[OF l, of f]
    by (simp del: sum.lessThan_Suc add: sum.lessThan_Suc_shift)
qed

lemma sum_list_concat_nth:
  fixes zss :: "real list list"
  shows "has_shape T B zss \<Longrightarrow> sum_list (concat zss) = (\<Sum>t<T. \<Sum>b<B. zss ! t ! b)"
proof (induction zss arbitrary: T)
  case Nil
  then show ?case by (simp add: has_shape_def)
next
  case (Cons zs zss)
  then obtain T' where e: "T = Suc T'" by (cases T) (auto simp: has_shape_def)
  with Cons.prems have l: "length zs = B" and r: "has_shape T' B zss"
    by (simp_all add: has_shape_def)
  have "sum_list zs = (\<Sum>b<B. zs ! b)"
    using l by (simp add: sum_list_sum_nth atLeast0LessThan)
  then show ?case unfolding e using Cons.IH[OF r] by (simp del: sum.lessThan_Suc add: sum.lessThan_Suc_shift)
qed

lemma transpose_shape:
  assumes "has_shape n T M" "0 < n"
  shows "has_shape T n (transpose M)" and "\<forall>t<T. \<forall>b<n. transpose M ! t ! b = M ! b ! t"
proof -
  from assms have rect: "\<And>i. i < length M \<Longrightarrow> length (M ! i) = T" and ne: "M \<noteq> []"
    and len: "length M = n"
    by (auto simp: has_shape_nth)
  have eq: "transpose M = map (\<lambda>i. map (\<lambda>j. M ! j ! i) [0..<length M]) [0..<T]"
    by (rule transpose_rectangle) (use ne rect in simp_all)
  show "has_shape T n (transpose M)" unfolding eq using len by (simp add: has_shape_nth)
  show "\<forall>t<T. \<forall>b<n. transpose M ! t ! b = M ! b ! t" unfolding eq using len by simp
qed

lemma repeat_axis0_single: "repeat_axis0 k [x] = replicate k x"
  by (simp add: repeat_axis0_def)

lemma double_sum_zero_iff:
  fixes a :: "nat \<Rightarrow> nat \<Rightarrow> real"
  assumes "\<forall>b<n. \<forall>t<T. 0 \<le> a b t"
  shows "(\<Sum>t<T. \<Sum>b<n. a b t) = 0 \<longleftrightarrow> (\<forall>b<n. \<forall>t<T. a b t = 0)"
proof -
  have inner: "\<And>t. t < T \<Longrightarrow> 0 \<le> (\<Sum>b<n. a b t)"
    using assms by (auto intro!: sum_nonneg)
  have "(\<Sum>t<T. \<Sum>b<n. a b t) = 0 \<longleftrightarrow> (\<forall>t<T. (\<Sum>b<n. a b t) = 0)"
    using inner by (subst sum_nonneg_eq_0_iff) auto
  also have "\<dots> \<longleftrightarrow> (\<forall>t<T. \<forall>b<n. a b t = 0)"
  proof -
    have "(\<Sum>b<n. a b t) = 0 \<longleftrightarrow> (\<forall>b<n. a b t = 0)" if "t < T" for t
      using assms that by (subst sum_nonneg_eq_0_iff) auto
    then show ?thesis by blast
  qed
  finally show ?thesis by blast
qed

lemma cost_eq:
  assumes n: "0 < n"
    and la: "has_shape n T latitude" and lo: "has_shape n T longitude"
    and ma: "has_shape n T latitude_mask"
    and dla: "length destination_latitude = n" and dlo: "length destination_longitude = n"
    and res: "res = fst (predict_all g m kwargs (transpose latitude) (transpose longitude)
                           (transpose latitude_mask))"
    and resB: "has_shape T n res"
  shows "cost g m pointwise kwargs destination_latitude destination_longitude
           latitude longitude latitude_mask =
         true_div (\<Sum>t<T. \<Sum>b<n. pointwise (destination_latitude ! b, destination_longitude ! b) (res ! t ! b)
                                   * latitude_mask ! b ! t)
                  (\<Sum>t<T. \<Sum>b<n. latitude_mask ! b ! t)"
proof -
  let ?tg = "zip destination_latitude destination_longitude"
  let ?maT = "transpose latitude_mask"
  have lT: "length (transpose latitude) = T"
    using transpose_shape(1)[OF la n] by (simp add: has_shape_def)
  have tg: "has_shape T n (replicate T ?tg)"
    using dla dlo by (simp add: has_shape_nth)
  have maT: "has_shape T n ?maT" and mnth: "\<forall>t<T. \<forall>b<n. ?maT ! t ! b = latitude_mask ! b ! t"
    using transpose_shape[OF ma n] by simp_all
  have num: "sum_list (map2 (*) (map2 pointwise (concat (replicate T ?tg)) (concat res)) (concat ?maT))
        = (\<Sum>t<T. \<Sum>b<n. pointwise (replicate T ?tg ! t ! b) (res ! t ! b) * ?maT ! t ! b)"
    by (rule sum_list_concat_map2[OF tg resB maT])
  also have "\<dots> = (\<Sum>t<T. \<Sum>b<n. pointwise (destination_latitude ! b, destination_longitude ! b) (res ! t ! b)
                                   * latitude_mask ! b ! t)"
    using mnth dla dlo by (intro sum.cong refl) simp
  finally have num': "sum_list (map2 (*) (map2 pointwise (concat (replicate T ?tg)) (concat res)) (concat ?maT))
      = (\<Sum>t<T. \<Sum>b<n. pointwise (destination_latitude ! b, destination_longitude ! b) (res ! t ! b)
                                   * latitude_mask ! b ! t)" .
  have "sum_list (concat ?maT) = (\<Sum>t<T. \<Sum>b<n. ?maT ! t ! b)"
    by (rule sum_list_concat_nth[OF maT])
  also have "\<dots> = (\<Sum>t<T. \<Sum>b<n. latitude_mask ! b ! t)"
    using mnth by (intro sum.cong refl) simp
  finally have den: "sum_list (concat ?maT) = (\<Sum>t<T. \<Sum>b<n. latitude_mask ! b ! t)" .
  show ?thesis
    unfolding cost_def Let_def res[symmetric] lT repeat_axis0_single erdist_def num' den ..
qed

text \<open>
  C8. For a batch of \<open>n > 0\<close> trajectories of \<open>T\<close> points, \<open>cost\<close> is the sum over
  all steps \<open>t\<close> and examples \<open>b\<close> of the distance between the destination of example
  \<open>b\<close> (the same at every step) and the prediction at step \<open>t\<close>, times the mask entry,
  divided by the sum of all mask entries. The division has no guard: the cost is a
  number exactly when the sum of the mask is not zero, which needs a nonzero mask entry;
  for a mask without negative entries a nonzero entry is also enough.
\<close>

theorem cost_masked_mean:
  assumes n: "0 < n"
    and la: "has_shape n T latitude" and lo: "has_shape n T longitude"
    and ma: "has_shape n T latitude_mask"
    and dla: "length destination_latitude = n" and dlo: "length destination_longitude = n"
    and res: "res = fst (predict_all g m kwargs (transpose latitude) (transpose longitude)
                           (transpose latitude_mask))"
    and resB: "has_shape T n res"
    and num: "num = (\<Sum>t<T. \<Sum>b<n.
                 pointwise (destination_latitude ! b, destination_longitude ! b) (res ! t ! b)
                   * latitude_mask ! b ! t)"
    and den: "den = (\<Sum>t<T. \<Sum>b<n. latitude_mask ! b ! t)"
    and c: "c = cost g m pointwise kwargs destination_latitude destination_longitude
                  latitude longitude latitude_mask"
  shows "(den \<noteq> 0 \<longrightarrow> c = Some (num / den))
       \<and> (den = 0 \<longrightarrow> c = None)
       \<and> (c \<noteq> None \<longrightarrow> (\<exists>b<n. \<exists>t<T. latitude_mask ! b ! t \<noteq> 0))
       \<and> ((\<forall>b<n. \<forall>t<T. 0 \<le> latitude_mask ! b ! t)
            \<and> (\<exists>b<n. \<exists>t<T. latitude_mask ! b ! t \<noteq> 0) \<longrightarrow> c \<noteq> None)"
proof -
  have eq: "c = true_div num den"
    unfolding c num den by (rule cost_eq[OF n la lo ma dla dlo res resB])
  have a: "den \<noteq> 0 \<longrightarrow> c = Some (num / den)" and b: "den = 0 \<longrightarrow> c = None"
    unfolding eq by (simp_all add: true_div_def)
  have z: "den = 0" if "\<not> (\<exists>b<n. \<exists>t<T. latitude_mask ! b ! t \<noteq> 0)"
    unfolding den using that by simp
  have d: "c \<noteq> None \<longrightarrow> (\<exists>b<n. \<exists>t<T. latitude_mask ! b ! t \<noteq> 0)"
    using z b by blast
  have e: "(\<forall>b<n. \<forall>t<T. 0 \<le> latitude_mask ! b ! t)
            \<and> (\<exists>b<n. \<exists>t<T. latitude_mask ! b ! t \<noteq> 0) \<longrightarrow> c \<noteq> None"
  proof (intro impI, elim conjE)
    assume nn: "\<forall>b<n. \<forall>t<T. 0 \<le> latitude_mask ! b ! t"
      and ex: "\<exists>b<n. \<exists>t<T. latitude_mask ! b ! t \<noteq> 0"
    from double_sum_zero_iff[of n T "\<lambda>b t. latitude_mask ! b ! t", OF nn] ex
    have "den \<noteq> 0" unfolding den by blast
    with a show "c \<noteq> None" by simp
  qed
  from a b d e show ?thesis by (intro conjI)
qed

theorem cost_masked_mean_witness:
  "cost ex_gps ex_bricks ex_pointwise () [43, 40] [- 7, - 8] ex_latitude ex_longitude ex_mask
     = Some (4 / 3)
   \<and> ex_mask ! 0 ! 0 \<noteq> 0"
proof -
  let ?res = "fst (predict_all ex_gps ex_bricks () (transpose ex_latitude) (transpose ex_longitude)
          (transpose ex_mask))"
  let ?num = "(\<Sum>t<2. \<Sum>b<2. ex_pointwise ([43, 40] ! b, [- 7, - 8] ! b) (?res ! t ! b) * ex_mask ! b ! t)"
  let ?den = "(\<Sum>t<2. \<Sum>b<(2::nat). ex_mask ! b ! t)"
  have r: "has_shape 2 2 ?res" unfolding ex_predict_all by (simp add: has_shape_def)
  have l: "length [43, 40 :: real] = 2" "length [- 7, - 8 :: real] = 2" by simp_all
  have den: "?den = 3"
    by (simp add: ex_mask_def numeral_2_eq_2)
  have num: "?num = 4"
    unfolding ex_predict_all by (simp add: ex_mask_def ex_pointwise_def numeral_2_eq_2)
  have "0 < (2::nat)" by simp
  from cost_masked_mean[OF this ex_shapes l refl r refl refl refl]
  have "?den \<noteq> 0 \<longrightarrow>
      cost ex_gps ex_bricks ex_pointwise () [43, 40] [- 7, - 8] ex_latitude ex_longitude ex_mask
        = Some (?num / ?den)"
    by (rule conjunct1)
  then have "cost ex_gps ex_bricks ex_pointwise () [43, 40] [- 7, - 8] ex_latitude ex_longitude ex_mask
     = Some (4 / 3)"
    unfolding den num by simp
  moreover have "ex_mask ! 0 ! 0 \<noteq> 0" by (simp add: ex_mask_def)
  ultimately show ?thesis by simp
qed

end
